theory Spec2Isabelle
  imports Main "HOL-Library.Sublist"
begin

section \<open>The syntax trees of convertToPropTypes.ts\<close>

text \<open>
  The module reads TypeScript type nodes of the Babel AST and builds Babel expression
  nodes. Both are modelled as datatypes, one constructor per node kind that the code
  inspects or builds, with the fields it reads. JavaScript strings are modelled as
  \<^typ>\<open>string\<close>; the code only compares them, concatenates them and tests a suffix.
\<close>

subsection \<open>Expressions built by the module\<close>

text \<open>
  \<open>Identifier\<close>, \<open>MemberExpression\<close>, \<open>CallExpression\<close>, \<open>ArrayExpression\<close>,
  \<open>ObjectExpression\<close> and \<open>ObjectProperty\<close> are the results of the builders
  \<open>t.identifier\<close>, \<open>t.memberExpression\<close>, \<open>t.callExpression\<close>, \<open>t.arrayExpression\<close>,
  \<open>t.objectExpression\<close> and \<open>t.objectProperty\<close>. The three literal nodes are the
  values a \<open>TSLiteralType\<close> can carry. The key of a property signature is an
  expression: an identifier or a literal, or any other expression when the key is
  computed (\<open>[Symbol.iterator]: string\<close>).
\<close>

datatype expr =
    Identifier string
  | StringLiteral string
  | NumericLiteral int
  | BooleanLiteral bool
  | MemberExpression expr expr
  | CallExpression expr "expr list"
  | ArrayExpression "expr list"
  | ObjectExpression "object_property list"
and object_property = ObjectProperty expr expr

subsection \<open>Type nodes read by the module\<close>

text \<open>
  A \<open>TSEntityName\<close> is an identifier or a qualified name \<open>left.right\<close>, where
  \<open>right\<close> is an identifier, kept here by its name.
\<close>

datatype ts_entity_name =
    EntityIdentifier string
  | TSQualifiedName ts_entity_name string

text \<open>
  \<open>TSTypeReference\<close> carries its \<open>typeName\<close> and its type arguments;
  \<open>TSArrayType\<close> its \<open>elementType\<close>; \<open>TSTypeLiteral\<close> its \<open>members\<close>;
  \<open>TSUnionType\<close> and \<open>TSIntersectionType\<close> their \<open>types\<close>;
  \<open>TSParenthesizedType\<close> its inner \<open>typeAnnotation\<close>; \<open>TSLiteralType\<close> its
  \<open>literal\<close>. \<open>TSOtherType\<close> stands for every node kind that none of the \<open>t.isTS...\<close>
  tests of \<open>convert\<close> recognises (\<open>TSAnyKeyword\<close>, \<open>TSTupleType\<close>, ...), tagged
  with the kind's name.

  A member of a type literal is a property signature, an index signature or some other
  member (a method or call signature). The \<open>typeAnnotation\<close> field of a property or
  index signature is optional; when present it is a \<open>TSTypeAnnotation\<close> node wrapping
  the type. The \<open>optional\<close> flag of a property signature is \<open>boolean | null\<close> and may
  be absent: \<open>None\<close> stands for absent or null.
\<close>

datatype ts_type =
    TSStringKeyword
  | TSNumberKeyword
  | TSBooleanKeyword
  | TSSymbolKeyword
  | TSFunctionType
  | TSTypeReference ts_entity_name "ts_type list"
  | TSArrayType ts_type
  | TSTypeLiteral "ts_type_element list"
  | TSUnionType "ts_type list"
  | TSIntersectionType "ts_type list"
  | TSParenthesizedType ts_type
  | TSLiteralType (literal: expr)
  | TSOtherType string
and ts_type_element =
    PropertySignature ts_property_signature
  | TSIndexSignature "ts_type_annotation option"
  | TSOtherElement string
and ts_property_signature =
    TSPropertySignature expr "ts_type_annotation option" "bool option"
and ts_type_annotation = TSTypeAnnotation ts_type

subsection \<open>Exceptions\<close>

text \<open>
  The module has no \<open>throw\<close> of its own, but two of its calls can raise a
  \<open>TypeError\<close>: the builder \<open>t.objectProperty\<close> on a key it does not accept, and
  \<open>properties.forEach\<close> on a value that is not an array. A result is \<open>Inr\<close> of the
  returned value or \<open>Inl\<close> of the error raised.
\<close>

datatype error =
    InvalidKeyTypeError expr
  | NotAFunctionTypeError string

section \<open>The functions of the module\<close>

text \<open>
  Modelled from the spec: \<open>getTypeName\<close> is imported from \<open>./getTypeName\<close>, which is
  not among the sources. The specification describes it as the name-resolution
  capability that flattens a possibly qualified type-reference name (\<open>A.B\<close>) into its
  dotted string form. No proof below unfolds it except to evaluate a concrete input.
\<close>

fun getTypeName :: "ts_entity_name \<Rightarrow> string" where
  "getTypeName (EntityIdentifier name) = name"
| "getTypeName (TSQualifiedName left right) = getTypeName left @ ''.'' @ right"

text \<open>\<open>String.prototype.endsWith\<close> with one argument.\<close>

definition endsWith :: "string \<Rightarrow> string \<Rightarrow> bool" where
  "endsWith s searchString \<longleftrightarrow>
     length searchString \<le> length s \<and>
     drop (length s - length searchString) s = searchString"

definition isReactTypeMatch :: "string \<Rightarrow> string \<Rightarrow> string \<Rightarrow> bool" where
  "isReactTypeMatch name type reactImportedName \<longleftrightarrow>
     name = type \<or> name = ''React.'' @ type \<or> name = reactImportedName @ ''.'' @ type"

text \<open>
  \<open>optional ? propType : ...\<close>: of the values of \<open>boolean | null | undefined\<close> only
  \<open>true\<close> is truthy.
\<close>

definition wrapIsRequired :: "expr \<Rightarrow> bool option \<Rightarrow> expr" where
  "wrapIsRequired propType optional =
     (if optional = Some True then propType
      else MemberExpression propType (Identifier ''isRequired''))"

definition createMember :: "expr \<Rightarrow> expr" where
  "createMember v = MemberExpression (Identifier ''PropTypes'') v"

definition createCall :: "expr \<Rightarrow> expr list \<Rightarrow> expr" where
  "createCall v args = CallExpression (createMember v) args"

text \<open>
  \<open>t.objectProperty(key, value)\<close> is Babel's builder. The module calls it with two
  arguments, so the field \<open>computed\<close> takes its default \<open>false\<close>, and the builder
  validates the key as a non-computed key: an identifier, a string literal or a numeric
  literal. On any other key it throws a \<open>TypeError\<close>.
\<close>

fun isPropertyKey :: "expr \<Rightarrow> bool" where
  "isPropertyKey (Identifier _) = True"
| "isPropertyKey (StringLiteral _) = True"
| "isPropertyKey (NumericLiteral _) = True"
| "isPropertyKey _ = False"

definition objectProperty :: "expr \<Rightarrow> expr \<Rightarrow> error + object_property" where
  "objectProperty key v =
     (if isPropertyKey key then Inr (ObjectProperty key v) else Inl (InvalidKeyTypeError key))"

fun isTSLiteralType :: "ts_type \<Rightarrow> bool" where
  "isTSLiteralType (TSLiteralType _) = True"
| "isTSLiteralType _ = False"

fun isTSParenthesizedType :: "ts_type \<Rightarrow> bool" where
  "isTSParenthesizedType (TSParenthesizedType _) = True"
| "isTSParenthesizedType _ = False"

fun isTSIndexSignature :: "ts_type_element \<Rightarrow> bool" where
  "isTSIndexSignature (TSIndexSignature _) = True"
| "isTSIndexSignature _ = False"

text \<open>
  \<open>type.members.filter(member => t.isTSPropertySignature(member)) as
  t.TSPropertySignature[]\<close>: the property signatures among the members, in order.
\<close>

fun propertySignatures :: "ts_type_element list \<Rightarrow> ts_property_signature list" where
  "propertySignatures [] = []"
| "propertySignatures (PropertySignature p # members) = p # propertySignatures members"
| "propertySignatures (_ # members) = propertySignatures members"

text \<open>
  The first statement of \<open>convert\<close>:
  \<open>if (t.isTSParenthesizedType(type)) type = type.typeAnnotation\<close>.
\<close>

fun removeParens :: "ts_type \<Rightarrow> ts_type" where
  "removeParens (TSParenthesizedType inner) = inner"
| "removeParens type = type"

lemma size_removeParens: "size (removeParens t) \<le> size t"
  by (cases t) simp_all

lemma size_propertySignatures:
  "size_list size (propertySignatures ms) \<le> size_list size ms"
  by (induction ms rule: propertySignatures.induct) simp_all

text \<open>
  \<open>convert\<close>, \<open>convertArray\<close> and \<open>convertListToProps\<close> call one another. The
  result \<open>null\<close> of \<open>convert\<close> is \<open>Inr None\<close>. The two \<open>forEach\<close> loops that push
  onto a fresh array are recursions over the list: the head is converted first, then the
  rest, and an exception raised on the way ends the loop. The branch for
  \<open>t.isTSUnionType(type) || t.isTSIntersectionType(type)\<close> appears once for each of the
  two node kinds. In the index-signature branch the test
  \<open>index.typeAnnotation && index.typeAnnotation.typeAnnotation\<close> succeeds exactly when
  the annotation is present, and every path of that branch that does not return falls
  through to the final \<open>return null\<close>.
\<close>

function convert :: "ts_type \<Rightarrow> string \<Rightarrow> error + expr option"
  and convertArray :: "ts_type list \<Rightarrow> string \<Rightarrow> error + expr list"
  and convertListToProps ::
    "ts_property_signature list \<Rightarrow> string \<Rightarrow> error + object_property list"
where
  "convert type0 reactImportedName =
     (case removeParens type0 of
        TSStringKeyword \<Rightarrow> Inr (Some (createMember (Identifier ''string'')))
      | TSNumberKeyword \<Rightarrow> Inr (Some (createMember (Identifier ''number'')))
      | TSBooleanKeyword \<Rightarrow> Inr (Some (createMember (Identifier ''bool'')))
      | TSSymbolKeyword \<Rightarrow> Inr (Some (createMember (Identifier ''symbol'')))
      | TSFunctionType \<Rightarrow> Inr (Some (createMember (Identifier ''func'')))
      | TSTypeReference typeName typeParameters \<Rightarrow>
          (let name = getTypeName typeName in
           if isReactTypeMatch name ''ReactText'' reactImportedName \<or>
              isReactTypeMatch name ''ReactNode'' reactImportedName \<or>
              isReactTypeMatch name ''ReactType'' reactImportedName \<or>
              isReactTypeMatch name ''ComponentType'' reactImportedName \<or>
              isReactTypeMatch name ''ComponentClass'' reactImportedName \<or>
              isReactTypeMatch name ''StatelessComponent'' reactImportedName
           then Inr (Some (createMember (Identifier ''node'')))
           else if isReactTypeMatch name ''Element'' ''JSX'' \<or>
              isReactTypeMatch name ''ReactElement'' reactImportedName \<or>
              isReactTypeMatch name ''SFCElement'' reactImportedName
           then Inr (Some (createMember (Identifier ''element'')))
           else if isReactTypeMatch name ''Ref'' reactImportedName
           then Inr (Some (createCall (Identifier ''oneOfType'')
                  [ArrayExpression
                    [createMember (Identifier ''string''),
                     createMember (Identifier ''func''),
                     createMember (Identifier ''object'')]]))
           else if endsWith name ''Handler''
           then Inr (Some (createMember (Identifier ''func'')))
           else if endsWith name ''Event''
           then Inr (Some (createMember (Identifier ''object'')))
           else Inr None)
      | TSArrayType elementType \<Rightarrow>
          (case convertArray [elementType] reactImportedName of
             Inl e \<Rightarrow> Inl e
           | Inr args \<Rightarrow>
               if length args > 0
               then Inr (Some (createCall (Identifier ''arrayOf'') args))
               else Inr (Some (createMember (Identifier ''array''))))
      | TSTypeLiteral members \<Rightarrow>
          (if length members = 0
           then Inr (Some (createMember (Identifier ''object'')))
           else if length members = 1 \<and> isTSIndexSignature (members ! 0)
           then (case members ! 0 of
                   TSIndexSignature (Some (TSTypeAnnotation valueType)) \<Rightarrow>
                     (case convert valueType reactImportedName of
                        Inl e \<Rightarrow> Inl e
                      | Inr (Some result) \<Rightarrow>
                          Inr (Some (createCall (Identifier ''objectOf'') [result]))
                      | Inr None \<Rightarrow> Inr None)
                 | _ \<Rightarrow> Inr None)
           else (case convertListToProps (propertySignatures members) reactImportedName of
                   Inl e \<Rightarrow> Inl e
                 | Inr props \<Rightarrow>
                     Inr (Some (createCall (Identifier ''shape'') [ObjectExpression props]))))
      | TSUnionType types \<Rightarrow>
          (if list_all isTSLiteralType types
           then (let args = map literal types in
                 if length args > 0
                 then Inr (Some (createCall (Identifier ''oneOf'') [ArrayExpression args]))
                 else Inr None)
           else (case convertArray types reactImportedName of
                   Inl e \<Rightarrow> Inl e
                 | Inr args \<Rightarrow>
                     if length args > 0
                     then Inr (Some (createCall (Identifier ''oneOfType'')
                            [ArrayExpression args]))
                     else Inr None))
      | TSIntersectionType types \<Rightarrow>
          (if list_all isTSLiteralType types
           then (let args = map literal types in
                 if length args > 0
                 then Inr (Some (createCall (Identifier ''oneOf'') [ArrayExpression args]))
                 else Inr None)
           else (case convertArray types reactImportedName of
                   Inl e \<Rightarrow> Inl e
                 | Inr args \<Rightarrow>
                     if length args > 0
                     then Inr (Some (createCall (Identifier ''oneOfType'')
                            [ArrayExpression args]))
                     else Inr None))
      | _ \<Rightarrow> Inr None)"
| "convertArray [] reactImportedName = Inr []"
| "convertArray (type # types) reactImportedName =
     (case convert type reactImportedName of
        Inl e \<Rightarrow> Inl e
      | Inr prop \<Rightarrow>
          (case convertArray types reactImportedName of
             Inl e \<Rightarrow> Inl e
           | Inr propTypes \<Rightarrow>
               Inr (case prop of Some p \<Rightarrow> p # propTypes | None \<Rightarrow> propTypes)))"
| "convertListToProps [] reactImportedName = Inr []"
| "convertListToProps (TSPropertySignature key typeAnnotation optional # properties)
       reactImportedName =
     (case typeAnnotation of
        None \<Rightarrow> convertListToProps properties reactImportedName
      | Some (TSTypeAnnotation type) \<Rightarrow>
          (case convert type reactImportedName of
             Inl e \<Rightarrow> Inl e
           | Inr None \<Rightarrow> convertListToProps properties reactImportedName
           | Inr (Some propType) \<Rightarrow>
               (case objectProperty key (wrapIsRequired propType optional) of
                  Inl e \<Rightarrow> Inl e
                | Inr property \<Rightarrow>
                    (case convertListToProps properties reactImportedName of
                       Inl e \<Rightarrow> Inl e
                     | Inr propTypes \<Rightarrow> Inr (property # propTypes)))))"
  by pat_completeness auto
termination
proof (relation "measure (\<lambda>x. case x of
      Inl (t, _) \<Rightarrow> 2 * size t + 1
    | Inr (Inl (ts, _)) \<Rightarrow> 2 * size_list size ts
    | Inr (Inr (ps, _)) \<Rightarrow> 2 * size_list size ps)", goal_cases)
  case 1
  show ?case by simp
next
  case (2 type0 a e)
  then show ?case using size_removeParens [of type0] by simp
next
  case (3 type0 a members x2 x2a x)
  then have "members = [TSIndexSignature (Some (TSTypeAnnotation x))]"
    by (cases members) auto
  with 3(1) show ?case using size_removeParens [of type0] by simp
next
  case (4 type0 a members)
  then show ?case
    using size_removeParens [of type0] size_propertySignatures [of members] by simp
next
  case (5 type0 a types)
  then show ?case using size_removeParens [of type0] by simp
next
  case (6 type0 a types)
  then show ?case using size_removeParens [of type0] by simp
qed simp_all

text \<open>
  The entry point. \<open>types\<close> is an object indexed by type name, declared as
  \<open>{ [key: string]: t.TSPropertySignature[] }\<close>. Its own properties are modelled as a
  map from names to property lists. It is a plain object, so a lookup
  \<open>types[typeName]\<close> that finds no own property goes on to \<open>Object.prototype\<close>,
  whose property names are listed in \<open>objectPrototypeNames\<close> (the standard methods and
  the accessor \<open>__proto__\<close>). The value found there is a function, or the prototype
  object itself for \<open>__proto__\<close>: it is truthy and has no \<open>forEach\<close>, so
  \<open>convertListToProps\<close> throws a \<open>TypeError\<close> at \<open>properties.forEach\<close>. For
  any other name the lookup is \<open>undefined\<close> and the name is skipped. An array, even an
  empty one, is truthy.
\<close>

definition objectPrototypeNames :: "string list" where
  "objectPrototypeNames =
     [''constructor'', ''__defineGetter__'', ''__defineSetter__'', ''hasOwnProperty'',
      ''__lookupGetter__'', ''__lookupSetter__'', ''isPrototypeOf'',
      ''propertyIsEnumerable'', ''toString'', ''valueOf'', ''__proto__'',
      ''toLocaleString'']"

fun convertToPropTypes ::
  "(string \<rightharpoonup> ts_property_signature list) \<Rightarrow> string list \<Rightarrow> string \<Rightarrow>
     error + object_property list"
where
  "convertToPropTypes types [] reactImportedName = Inr []"
| "convertToPropTypes types (typeName # typeNames) reactImportedName =
     (case types typeName of
        Some properties \<Rightarrow>
          (case convertListToProps properties reactImportedName of
             Inl e \<Rightarrow> Inl e
           | Inr props \<Rightarrow>
               (case convertToPropTypes types typeNames reactImportedName of
                  Inl e \<Rightarrow> Inl e
                | Inr rest \<Rightarrow> Inr (props @ rest)))
      | None \<Rightarrow>
          if typeName \<in> set objectPrototypeNames
          then Inl (NotAFunctionTypeError typeName)
          else convertToPropTypes types typeNames reactImportedName)"

section \<open>Rule tables and auxiliary notions\<close>

text \<open>
  The names that the node rule of \<open>convert\<close> tests with the configured alias, and the
  names that its element rule tests with the configured alias (the element rule also
  tests \<open>Element\<close> with the alias \<open>JSX\<close>).
\<close>

definition nodeTypes :: "string list" where
  "nodeTypes = [''ReactText'', ''ReactNode'', ''ReactType'', ''ComponentType'',
     ''ComponentClass'', ''StatelessComponent'']"

definition elementTypes :: "string list" where
  "elementTypes = [''ReactElement'', ''SFCElement'']"

text \<open>
  The part of a dotted name after its last dot. It is not part of the module; it serves to
  show that a name matches at most one framework type.
\<close>

definition lastSegment :: "string \<Rightarrow> string" where
  "lastSegment name = rev (takeWhile (\<lambda>c. c \<noteq> CHR ''.'') (rev name))"

section \<open>Basic facts\<close>

declare convert.simps [simp del]

subsection \<open>Strings\<close>

lemma endsWith_suffix: "endsWith s t \<longleftrightarrow> suffix t s"
  unfolding endsWith_def
  by (metis append_eq_conv_conj append_take_drop_id diff_add_inverse2 length_append
      suffixE suffixI suffix_length_le)

lemma endsWith_trans: "endsWith t u \<Longrightarrow> endsWith s t \<Longrightarrow> endsWith s u"
  unfolding endsWith_suffix by (rule suffix_order.trans)

lemma takeWhile_rev_no_dot:
  "CHR ''.'' \<notin> set s \<Longrightarrow> takeWhile (\<lambda>c. c \<noteq> CHR ''.'') (rev s) = rev s"
  by (simp add: takeWhile_eq_all_conv) blast

lemma lastSegment_no_dot: "CHR ''.'' \<notin> set s \<Longrightarrow> lastSegment s = s"
  by (simp add: lastSegment_def takeWhile_rev_no_dot)

lemma lastSegment_append_dot:
  "CHR ''.'' \<notin> set s \<Longrightarrow> lastSegment (p @ ''.'' @ s) = s"
  by (simp add: lastSegment_def takeWhile_tail takeWhile_rev_no_dot)

lemma isReactTypeMatch_lastSegment:
  assumes "isReactTypeMatch name type a" and "CHR ''.'' \<notin> set type"
  shows "lastSegment name = type"
proof -
  have "''React.'' @ type = ''React'' @ ''.'' @ type" by simp
  with assms show ?thesis
    unfolding isReactTypeMatch_def
    by (metis lastSegment_no_dot lastSegment_append_dot)
qed

lemma match_unique:
  assumes "isReactTypeMatch name T a" "isReactTypeMatch name U b"
    and "CHR ''.'' \<notin> set T" "CHR ''.'' \<notin> set U"
  shows "T = U"
  using assms isReactTypeMatch_lastSegment by metis

lemma no_match_other_segment:
  assumes "lastSegment name = S" and "CHR ''.'' \<notin> set T" and "T \<noteq> S"
  shows "\<not> isReactTypeMatch name T a"
  using assms isReactTypeMatch_lastSegment by blast

lemma no_dot_frameworkTypes:
  "T \<in> set (''Element'' # ''Ref'' # nodeTypes @ elementTypes) \<Longrightarrow> CHR ''.'' \<notin> set T"
  by (auto simp: nodeTypes_def elementTypes_def)

lemma node_element_distinct:
  "T \<in> set nodeTypes \<Longrightarrow> U \<in> set (''Element'' # ''Ref'' # elementTypes) \<Longrightarrow> T \<noteq> U"
  by (auto simp: nodeTypes_def elementTypes_def)

lemma node_excludes_element:
  assumes "isReactTypeMatch name U b" and "U \<in> set (''Element'' # ''Ref'' # elementTypes)"
    and "T \<in> set nodeTypes"
  shows "\<not> isReactTypeMatch name T a"
proof
  assume "isReactTypeMatch name T a"
  then have "T = U"
    using assms(1)
  proof (rule match_unique)
    show "CHR ''.'' \<notin> set T" using assms(3) by (intro no_dot_frameworkTypes) simp
    show "CHR ''.'' \<notin> set U" using assms(2) by (intro no_dot_frameworkTypes) auto
  qed
  with node_element_distinct [OF assms(3) assms(2)] show False by simp
qed

subsection \<open>One equation of \<open>convert\<close> for each node kind\<close>

lemma convert_keywords [simp]:
  "convert TSStringKeyword a = Inr (Some (createMember (Identifier ''string'')))"
  "convert TSNumberKeyword a = Inr (Some (createMember (Identifier ''number'')))"
  "convert TSBooleanKeyword a = Inr (Some (createMember (Identifier ''bool'')))"
  "convert TSSymbolKeyword a = Inr (Some (createMember (Identifier ''symbol'')))"
  "convert TSFunctionType a = Inr (Some (createMember (Identifier ''func'')))"
  "convert (TSLiteralType l) a = Inr None"
  "convert (TSOtherType k) a = Inr None"
  by (simp_all add: convert.simps)

lemma convert_TSParenthesizedType:
  "convert (TSParenthesizedType t) a =
     (if isTSParenthesizedType t then Inr None else convert t a)"
  by (cases t) (simp_all add: convert.simps)


lemma convert_TSArrayType:
  "convert (TSArrayType e) a =
     (case convert e a of
        Inl err \<Rightarrow> Inl err
      | Inr (Some v) \<Rightarrow> Inr (Some (createCall (Identifier ''arrayOf'') [v]))
      | Inr None \<Rightarrow> Inr (Some (createMember (Identifier ''array''))))"
  by (subst convert.simps) (simp split: sum.split option.split)



lemma convert_TSTypeLiteral_empty:
  "convert (TSTypeLiteral []) a = Inr (Some (createMember (Identifier ''object'')))"
  by (subst convert.simps) simp

lemma convert_TSTypeLiteral_shape:
  "members \<noteq> [] \<Longrightarrow> \<not> (length members = 1 \<and> isTSIndexSignature (members ! 0)) \<Longrightarrow>
   convert (TSTypeLiteral members) a =
     (case convertListToProps (propertySignatures members) a of
        Inl err \<Rightarrow> Inl err
      | Inr props \<Rightarrow>
          Inr (Some (createCall (Identifier ''shape'') [ObjectExpression props])))"
  by (subst convert.simps) auto

lemma convert_TSTypeLiteral_index_None:
  "convert (TSTypeLiteral [TSIndexSignature None]) a = Inr None"
  by (subst convert.simps) simp

lemma convert_TSTypeLiteral_index_Some:
  "convert (TSTypeLiteral [TSIndexSignature (Some (TSTypeAnnotation valueType))]) a =
     (case convert valueType a of
        Inl err \<Rightarrow> Inl err
      | Inr (Some result) \<Rightarrow> Inr (Some (createCall (Identifier ''objectOf'') [result]))
      | Inr None \<Rightarrow> Inr None)"
  by (subst convert.simps) simp

lemma single_index_signature:
  assumes "length members = 1" and "isTSIndexSignature (members ! 0)"
  obtains "members = [TSIndexSignature None]"
  | valueType where "members = [TSIndexSignature (Some (TSTypeAnnotation valueType))]"
proof -
  from assms(1) obtain m where m: "members = [m]"
    by (cases members) auto
  with assms(2) obtain ann where ann: "m = TSIndexSignature ann"
    by (cases m) auto
  show thesis
  proof (cases ann)
    case None
    with m ann show thesis using that(1) by simp
  next
    case (Some ta)
    obtain ty where "ta = TSTypeAnnotation ty" by (cases ta)
    with Some m ann show thesis using that(2) by simp
  qed
qed

lemma convert_TSTypeReference:
  "convert (TSTypeReference typeName typeParameters) a =
     (let name = getTypeName typeName in
      if isReactTypeMatch name ''ReactText'' a \<or>
         isReactTypeMatch name ''ReactNode'' a \<or>
         isReactTypeMatch name ''ReactType'' a \<or>
         isReactTypeMatch name ''ComponentType'' a \<or>
         isReactTypeMatch name ''ComponentClass'' a \<or>
         isReactTypeMatch name ''StatelessComponent'' a
      then Inr (Some (createMember (Identifier ''node'')))
      else if isReactTypeMatch name ''Element'' ''JSX'' \<or>
         isReactTypeMatch name ''ReactElement'' a \<or>
         isReactTypeMatch name ''SFCElement'' a
      then Inr (Some (createMember (Identifier ''element'')))
      else if isReactTypeMatch name ''Ref'' a
      then Inr (Some (createCall (Identifier ''oneOfType'')
             [ArrayExpression
               [createMember (Identifier ''string''),
                createMember (Identifier ''func''),
                createMember (Identifier ''object'')]]))
      else if endsWith name ''Handler''
      then Inr (Some (createMember (Identifier ''func'')))
      else if endsWith name ''Event''
      then Inr (Some (createMember (Identifier ''object'')))
      else Inr None)"
  by (subst convert.simps) simp

lemma convert_TSTypeReference_rules:
  "convert (TSTypeReference typeName typeParameters) a =
     (if \<exists>T\<in>set nodeTypes. isReactTypeMatch (getTypeName typeName) T a
      then Inr (Some (createMember (Identifier ''node'')))
      else if isReactTypeMatch (getTypeName typeName) ''Element'' ''JSX'' \<or>
              (\<exists>T\<in>set elementTypes. isReactTypeMatch (getTypeName typeName) T a)
      then Inr (Some (createMember (Identifier ''element'')))
      else if isReactTypeMatch (getTypeName typeName) ''Ref'' a
      then Inr (Some (createCall (Identifier ''oneOfType'')
             [ArrayExpression
               [createMember (Identifier ''string''),
                createMember (Identifier ''func''),
                createMember (Identifier ''object'')]]))
      else if endsWith (getTypeName typeName) ''Handler''
      then Inr (Some (createMember (Identifier ''func'')))
      else if endsWith (getTypeName typeName) ''Event''
      then Inr (Some (createMember (Identifier ''object'')))
      else Inr None)"
  unfolding convert_TSTypeReference
  by (simp add: Let_def nodeTypes_def elementTypes_def cong: if_cong)

subsection \<open>The two list conversions where nothing is thrown\<close>

text \<open>
  The assignment that a property signature contributes when its annotation converts
  without an exception: none when it has no annotation or the annotation converts to
  \<open>null\<close>, one under its own key otherwise.
\<close>

fun assignment :: "(ts_type \<Rightarrow> expr option) \<Rightarrow> ts_property_signature \<Rightarrow> object_property option"
where
  "assignment f (TSPropertySignature key None optional) = None"
| "assignment f (TSPropertySignature key (Some (TSTypeAnnotation type)) optional) =
     map_option (\<lambda>v. ObjectProperty key (wrapIsRequired v optional)) (f type)"

text \<open>
  A property signature is converted without an exception when its annotation, if any,
  converts to \<open>f type\<close> and, if that is a validator, the builder accepts its key.
\<close>

fun convertsTo :: "string \<Rightarrow> (ts_type \<Rightarrow> expr option) \<Rightarrow> ts_property_signature \<Rightarrow> bool"
where
  "convertsTo a f (TSPropertySignature key None optional) = True"
| "convertsTo a f (TSPropertySignature key (Some (TSTypeAnnotation type)) optional) =
     (convert type a = Inr (f type) \<and> (f type \<noteq> None \<longrightarrow> isPropertyKey key))"

lemma convertListToProps_map_filter:
  "\<forall>p\<in>set properties. convertsTo a f p \<Longrightarrow>
   convertListToProps properties a = Inr (List.map_filter (assignment f) properties)"
proof (induction properties)
  case Nil
  show ?case by simp
next
  case (Cons p ps)
  obtain key ann opt where p: "p = TSPropertySignature key ann opt" by (cases p)
  show ?case
  proof (cases ann)
    case None
    with p Cons show ?thesis by simp
  next
    case (Some ta)
    obtain ty where "ta = TSTypeAnnotation ty" by (cases ta)
    with Some p Cons show ?thesis
      by (cases "f ty") (auto simp: objectProperty_def)
  qed
qed

text \<open>
  The entry point, when every listed name is in the mapping or is not a property of
  \<open>Object.prototype\<close>, and every member of a listed list converts without an
  exception.
\<close>

lemma convertToPropTypes_concat:
  assumes "\<forall>typeName\<in>set typeNames.
      case types typeName of
        None \<Rightarrow> typeName \<notin> set objectPrototypeNames
      | Some properties \<Rightarrow> \<forall>p\<in>set properties. convertsTo a f p"
  shows "convertToPropTypes types typeNames a =
     Inr (concat (map (\<lambda>typeName. case types typeName of
                     None \<Rightarrow> []
                   | Some properties \<Rightarrow> List.map_filter (assignment f) properties)
            typeNames))"
  using assms
proof (induction typeNames)
  case Nil
  show ?case by simp
next
  case (Cons n ns)
  then have rest: "convertToPropTypes types ns a =
     Inr (concat (map (\<lambda>typeName. case types typeName of
                     None \<Rightarrow> []
                   | Some properties \<Rightarrow> List.map_filter (assignment f) properties) ns))"
    by simp
  show ?case
  proof (cases "types n")
    case None
    with Cons.prems have "n \<notin> set objectPrototypeNames" by simp
    with None rest show ?thesis by simp
  next
    case (Some ps)
    with Cons.prems have "\<forall>p\<in>set ps. convertsTo a f p" by simp
    then have "convertListToProps ps a = Inr (List.map_filter (assignment f) ps)"
      by (rule convertListToProps_map_filter)
    with Some rest show ?thesis by simp
  qed
qed

section \<open>Type literals\<close>

text \<open>
  C1 (as amended): a type literal whose single member is an index signature without a
  type annotation converts to \<open>null\<close>: the single-index-signature branch is entered,
  returns nothing, and control falls through to the final \<open>return null\<close>. An empty
  literal converts to the \<open>object\<close> validator. A single index signature with an
  annotation yields \<open>objectOf\<close> of the converted value type, or \<open>null\<close> when that
  conversion yields \<open>null\<close>. The shape rule applies exactly to the non-empty literals
  that are not a single index signature: there \<open>convert\<close> keeps the property signatures
  and, when \<open>convertListToProps\<close> returns a list for them, emits \<open>shape({...})\<close>
  over that list; and whenever \<open>convert\<close> returns a \<open>shape\<close> call for a type
  literal, the literal is of that kind and the argument is that list.
\<close>

theorem convert_type_literal_single_index:
  "convert (TSTypeLiteral [TSIndexSignature None]) a = Inr None \<and>
   convert (TSTypeLiteral []) a =
     Inr (Some (MemberExpression (Identifier ''PropTypes'') (Identifier ''object''))) \<and>
   (convert valueType a = Inr r \<longrightarrow>
      convert (TSTypeLiteral [TSIndexSignature (Some (TSTypeAnnotation valueType))]) a =
        Inr (map_option
          (\<lambda>result. CallExpression
             (MemberExpression (Identifier ''PropTypes'') (Identifier ''objectOf'')) [result])
          r)) \<and>
   (members \<noteq> [] \<and> \<not> (length members = 1 \<and> isTSIndexSignature (members ! 0)) \<and>
    convertListToProps (propertySignatures members) a = Inr props \<longrightarrow>
      convert (TSTypeLiteral members) a =
        Inr (Some (CallExpression
          (MemberExpression (Identifier ''PropTypes'') (Identifier ''shape''))
          [ObjectExpression props]))) \<and>
   (convert (TSTypeLiteral members) a =
      Inr (Some (CallExpression
        (MemberExpression (Identifier ''PropTypes'') (Identifier ''shape'')) args)) \<longrightarrow>
      members \<noteq> [] \<and> \<not> (length members = 1 \<and> isTSIndexSignature (members ! 0)) \<and>
      (\<exists>props. convertListToProps (propertySignatures members) a = Inr props \<and>
         args = [ObjectExpression props]))"
proof (intro conjI impI)
  show "convert (TSTypeLiteral [TSIndexSignature None]) a = Inr None"
    by (rule convert_TSTypeLiteral_index_None)
  show "convert (TSTypeLiteral []) a =
     Inr (Some (MemberExpression (Identifier ''PropTypes'') (Identifier ''object'')))"
    by (simp add: convert_TSTypeLiteral_empty createMember_def)
  show "convert (TSTypeLiteral [TSIndexSignature (Some (TSTypeAnnotation valueType))]) a =
        Inr (map_option
          (\<lambda>result. CallExpression
             (MemberExpression (Identifier ''PropTypes'') (Identifier ''objectOf'')) [result])
          r)"
    if "convert valueType a = Inr r"
    using that
    by (cases r) (simp_all add: convert_TSTypeLiteral_index_Some createCall_def createMember_def)
  show "convert (TSTypeLiteral members) a =
        Inr (Some (CallExpression
          (MemberExpression (Identifier ''PropTypes'') (Identifier ''shape''))
          [ObjectExpression props]))"
    if "members \<noteq> [] \<and> \<not> (length members = 1 \<and> isTSIndexSignature (members ! 0)) \<and>
      convertListToProps (propertySignatures members) a = Inr props"
    using that by (simp add: convert_TSTypeLiteral_shape createCall_def createMember_def)
next
  assume shape: "convert (TSTypeLiteral members) a =
      Inr (Some (CallExpression
        (MemberExpression (Identifier ''PropTypes'') (Identifier ''shape'')) args))"
  show ne: "members \<noteq> []"
    using shape by (auto simp: convert_TSTypeLiteral_empty createMember_def)
  show single: "\<not> (length members = 1 \<and> isTSIndexSignature (members ! 0))"
  proof
    assume "length members = 1 \<and> isTSIndexSignature (members ! 0)"
    then have "length members = 1" "isTSIndexSignature (members ! 0)" by simp_all
    then show False
    proof (cases rule: single_index_signature)
      case 1
      with shape show False by (simp add: convert_TSTypeLiteral_index_None)
    next
      case (2 valueType)
      with shape show False
        by (simp add: convert_TSTypeLiteral_index_Some createCall_def createMember_def
            split: sum.splits option.splits)
    qed
  qed
  from shape show "\<exists>props. convertListToProps (propertySignatures members) a = Inr props \<and>
         args = [ObjectExpression props]"
    by (simp add: convert_TSTypeLiteral_shape [OF ne single] createCall_def createMember_def
        split: sum.splits)
qed

theorem convert_type_literal_single_index_witness:
  "convert (TSTypeLiteral [TSIndexSignature None]) ''React'' = Inr None \<and>
   convert TSStringKeyword ''React'' =
     Inr (Some (MemberExpression (Identifier ''PropTypes'') (Identifier ''string''))) \<and>
   convert (TSTypeLiteral [TSIndexSignature (Some (TSTypeAnnotation TSStringKeyword))]) ''React'' =
     Inr (Some (CallExpression
       (MemberExpression (Identifier ''PropTypes'') (Identifier ''objectOf''))
       [MemberExpression (Identifier ''PropTypes'') (Identifier ''string'')])) \<and>
   length
     [PropertySignature (TSPropertySignature (Identifier ''foo'')
        (Some (TSTypeAnnotation TSStringKeyword)) None),
      TSIndexSignature None] = 2 \<and>
   convertListToProps
     (propertySignatures
       [PropertySignature (TSPropertySignature (Identifier ''foo'')
          (Some (TSTypeAnnotation TSStringKeyword)) None),
        TSIndexSignature None]) ''React'' =
     Inr [ObjectProperty (Identifier ''foo'')
           (MemberExpression
             (MemberExpression (Identifier ''PropTypes'') (Identifier ''string''))
             (Identifier ''isRequired''))] \<and>
   convert (TSTypeLiteral
      [PropertySignature (TSPropertySignature (Identifier ''foo'')
         (Some (TSTypeAnnotation TSStringKeyword)) None),
       TSIndexSignature None]) ''React'' =
     Inr (Some (CallExpression
       (MemberExpression (Identifier ''PropTypes'') (Identifier ''shape''))
       [ObjectExpression
         [ObjectProperty (Identifier ''foo'')
           (MemberExpression
             (MemberExpression (Identifier ''PropTypes'') (Identifier ''string''))
             (Identifier ''isRequired''))]]))"
  using convert_type_literal_single_index
    [of "''React''" TSStringKeyword
      "Some (MemberExpression (Identifier ''PropTypes'') (Identifier ''string''))"
      "[PropertySignature (TSPropertySignature (Identifier ''foo'')
          (Some (TSTypeAnnotation TSStringKeyword)) None),
        TSIndexSignature None]"
      "[ObjectProperty (Identifier ''foo'')
           (MemberExpression
             (MemberExpression (Identifier ''PropTypes'') (Identifier ''string''))
             (Identifier ''isRequired''))]"
      "[]"]
  by (simp add: createMember_def wrapIsRequired_def objectProperty_def)

text \<open>
  The claim as stated fails: for the single index signature \<open>{ [key: string] }\<close> without
  a value type, \<open>convert\<close> returns \<open>null\<close>, not the call \<open>shape({})\<close> over the
  (empty) list of its property signatures.
\<close>

theorem index_without_type_is_not_shape:
  "propertySignatures [TSIndexSignature None] = [] \<and>
   convertListToProps (propertySignatures [TSIndexSignature None]) ''React'' = Inr [] \<and>
   convert (TSTypeLiteral [TSIndexSignature None]) ''React'' = Inr None \<and>
   convert (TSTypeLiteral [TSIndexSignature None]) ''React'' \<noteq>
     Inr (Some (CallExpression
       (MemberExpression (Identifier ''PropTypes'') (Identifier ''shape''))
       [ObjectExpression []]))"
  by (simp add: convert_TSTypeLiteral_index_None)

section \<open>Array types\<close>

text \<open>
  C2: for every element type \<open>E\<close> and every alias, if \<open>convert E\<close> yields a validator
  \<open>V\<close> then \<open>convert\<close> of the array type of \<open>E\<close> yields the call \<open>arrayOf(V)\<close>; if
  \<open>convert E\<close> yields \<open>null\<close> it yields the bare \<open>array\<close> validator; the array
  conversion never yields \<open>null\<close>.
\<close>

theorem convert_array_type:
  "(convert E a = Inr (Some V) \<longrightarrow>
      convert (TSArrayType E) a = Inr (Some (createCall (Identifier ''arrayOf'') [V]))) \<and>
   (convert E a = Inr None \<longrightarrow>
      convert (TSArrayType E) a = Inr (Some (createMember (Identifier ''array'')))) \<and>
   convert (TSArrayType E) a \<noteq> Inr None"
  by (simp add: convert_TSArrayType split: sum.split option.split)

theorem convert_array_type_witness:
  "convert TSStringKeyword ''React'' = Inr (Some (createMember (Identifier ''string''))) \<and>
   convert (TSOtherType ''TSAnyKeyword'') ''React'' = Inr None \<and>
   convert (TSArrayType TSStringKeyword) ''React'' =
     Inr (Some (CallExpression
       (MemberExpression (Identifier ''PropTypes'') (Identifier ''arrayOf''))
       [MemberExpression (Identifier ''PropTypes'') (Identifier ''string'')])) \<and>
   convert (TSArrayType (TSOtherType ''TSAnyKeyword'')) ''React'' =
     Inr (Some (MemberExpression (Identifier ''PropTypes'') (Identifier ''array'')))"
  using convert_array_type [of TSStringKeyword "''React''" "createMember (Identifier ''string'')"]
    convert_array_type [of "TSOtherType ''TSAnyKeyword''" "''React''"]
  by (simp add: createCall_def createMember_def)

section \<open>Union and intersection types\<close>



section \<open>The required wrapper\<close>

text \<open>
  C4: for every validator expression \<open>v\<close>, \<open>wrapIsRequired v true\<close> is \<open>v\<close> unchanged;
  with the flag \<open>false\<close>, and with the flag absent or null, the result is the member
  access \<open>v.isRequired\<close>. In every case the result is \<open>v\<close> itself or a member
  expression whose object is \<open>v\<close>, and the function is total. In
  \<open>convertListToProps\<close> a property whose annotation converts to \<open>v\<close>, and whose key
  the builder \<open>t.objectProperty\<close> accepts, yields one assignment, under its own key,
  whose value is \<open>v\<close> wrapped by its flag.
\<close>

theorem wrapIsRequired_cases:
  "wrapIsRequired v (Some True) = v \<and>
   wrapIsRequired v (Some False) = MemberExpression v (Identifier ''isRequired'') \<and>
   wrapIsRequired v None = MemberExpression v (Identifier ''isRequired'') \<and>
   (\<forall>optional. wrapIsRequired v optional = v \<or>
      wrapIsRequired v optional = MemberExpression v (Identifier ''isRequired'')) \<and>
   (\<forall>type key optional a. convert type a = Inr (Some v) \<and> isPropertyKey key \<longrightarrow>
      convertListToProps [TSPropertySignature key (Some (TSTypeAnnotation type)) optional] a =
        Inr [ObjectProperty key (wrapIsRequired v optional)])"
  by (simp add: wrapIsRequired_def objectProperty_def)

theorem wrapIsRequired_cases_witness:
  "wrapIsRequired (MemberExpression (Identifier ''PropTypes'') (Identifier ''string''))
     (Some True) =
     MemberExpression (Identifier ''PropTypes'') (Identifier ''string'') \<and>
   wrapIsRequired (MemberExpression (Identifier ''PropTypes'') (Identifier ''string'')) None =
     MemberExpression (MemberExpression (Identifier ''PropTypes'') (Identifier ''string''))
       (Identifier ''isRequired'') \<and>
   convert TSStringKeyword ''React'' =
     Inr (Some (MemberExpression (Identifier ''PropTypes'') (Identifier ''string''))) \<and>
   isPropertyKey (Identifier ''label'') \<and>
   convertListToProps
     [TSPropertySignature (Identifier ''label'') (Some (TSTypeAnnotation TSStringKeyword))
        (Some False)] ''React'' =
     Inr [ObjectProperty (Identifier ''label'')
        (MemberExpression (MemberExpression (Identifier ''PropTypes'') (Identifier ''string''))
           (Identifier ''isRequired''))]"
  using wrapIsRequired_cases [of "MemberExpression (Identifier ''PropTypes'') (Identifier ''string'')"]
  by (simp add: createMember_def wrapIsRequired_def objectProperty_def)

section \<open>Type references\<close>

text \<open>
  C5: for every alias \<open>A\<close>, a type reference whose resolved name is \<open>A.ReactNode\<close>
  converts to the \<open>node\<close> validator when the configured alias is \<open>A\<close>. When the
  configured alias \<open>B\<close> differs from \<open>A\<close> and the name is neither
  \<open>React.ReactNode\<close> nor \<open>ReactNode\<close>, no framework type matches (neither a node
  type, nor an element type, nor \<open>Ref\<close>, nor \<open>Element\<close> under \<open>JSX\<close>) and the
  conversion yields \<open>null\<close>. The match rule is: the name equals \<open>T\<close>, or
  \<open>React.T\<close>, or \<open>alias.T\<close>; the conversion yields \<open>node\<close> exactly when the name
  matches a node type under the configured alias, and \<open>element\<close> exactly when it
  matches \<open>Element\<close> under \<open>JSX\<close> or an element type under the configured alias.
\<close>

theorem alias_sensitivity:
  "(getTypeName typeName = A @ ''.ReactNode'' \<longrightarrow>
      convert (TSTypeReference typeName typeArguments) A =
        Inr (Some (createMember (Identifier ''node'')))) \<and>
   (getTypeName typeName = A @ ''.ReactNode'' \<and> B \<noteq> A \<and>
    getTypeName typeName \<noteq> ''React.ReactNode'' \<and> getTypeName typeName \<noteq> ''ReactNode'' \<longrightarrow>
      (\<forall>T\<in>set (nodeTypes @ elementTypes @ [''Ref'']).
         \<not> isReactTypeMatch (getTypeName typeName) T B) \<and>
      \<not> isReactTypeMatch (getTypeName typeName) ''Element'' ''JSX'' \<and>
      convert (TSTypeReference typeName typeArguments) B = Inr None) \<and>
   (isReactTypeMatch name T alias \<longleftrightarrow>
      name = T \<or> name = ''React.'' @ T \<or> name = alias @ ''.'' @ T) \<and>
   (convert (TSTypeReference typeName typeArguments) alias =
        Inr (Some (createMember (Identifier ''node''))) \<longleftrightarrow>
      (\<exists>T\<in>set nodeTypes. isReactTypeMatch (getTypeName typeName) T alias)) \<and>
   (convert (TSTypeReference typeName typeArguments) alias =
        Inr (Some (createMember (Identifier ''element''))) \<longleftrightarrow>
      isReactTypeMatch (getTypeName typeName) ''Element'' ''JSX'' \<or>
      (\<exists>T\<in>set elementTypes. isReactTypeMatch (getTypeName typeName) T alias))"
proof -
  let ?name = "getTypeName typeName"
  let ?ref = "TSTypeReference typeName typeArguments"
  have p1: "convert ?ref A = Inr (Some (createMember (Identifier ''node'')))"
    if "?name = A @ ''.ReactNode''"
  proof -
    have "isReactTypeMatch ?name ''ReactNode'' A"
      using that by (simp add: isReactTypeMatch_def)
    moreover have "''ReactNode'' \<in> set nodeTypes" by (simp add: nodeTypes_def)
    ultimately have "\<exists>T\<in>set nodeTypes. isReactTypeMatch ?name T A" by blast
    then show ?thesis by (simp add: convert_TSTypeReference_rules)
  qed
  have p2: "(\<forall>T\<in>set (nodeTypes @ elementTypes @ [''Ref'']). \<not> isReactTypeMatch ?name T B) \<and>
      \<not> isReactTypeMatch ?name ''Element'' ''JSX'' \<and> convert ?ref B = Inr None"
    if h: "?name = A @ ''.ReactNode''" "B \<noteq> A" "?name \<noteq> ''React.ReactNode''"
      "?name \<noteq> ''ReactNode''"
  proof -
    have seg: "lastSegment ?name = ''ReactNode''"
      using h(1) lastSegment_append_dot [of "''ReactNode''" A] by simp
    have rn: "\<not> isReactTypeMatch ?name ''ReactNode'' B"
      using h by (auto simp: isReactTypeMatch_def)
    have other: "\<not> isReactTypeMatch ?name T b"
      if "T \<in> set (''Element'' # ''Ref'' # nodeTypes @ elementTypes)" "T \<noteq> ''ReactNode''"
      for T b
      using seg no_dot_frameworkTypes [OF that(1)] that(2) by (rule no_match_other_segment)
    have all: "\<not> isReactTypeMatch ?name T B"
      if "T \<in> set (''Element'' # ''Ref'' # nodeTypes @ elementTypes)" for T
      using rn other [OF that] by (cases "T = ''ReactNode''") simp_all
    have "\<not> endsWith ?name ''Handler''" "\<not> endsWith ?name ''Event''"
      using h(1) by (simp_all add: endsWith_def)
    moreover have el: "\<not> isReactTypeMatch ?name ''Element'' ''JSX''"
      using other [of "''Element''"] by simp
    ultimately have "convert ?ref B = Inr None"
      using all by (simp add: convert_TSTypeReference_rules)
    with el all show ?thesis by simp
  qed
  have p3: "isReactTypeMatch name T alias \<longleftrightarrow>
      name = T \<or> name = ''React.'' @ T \<or> name = alias @ ''.'' @ T"
    by (simp add: isReactTypeMatch_def)
  have p4: "convert ?ref alias = Inr (Some (createMember (Identifier ''node''))) \<longleftrightarrow>
      (\<exists>T\<in>set nodeTypes. isReactTypeMatch ?name T alias)"
    by (simp add: convert_TSTypeReference_rules createMember_def createCall_def)
  have excl: "\<not> (\<exists>T\<in>set nodeTypes. isReactTypeMatch ?name T alias)"
    if "isReactTypeMatch ?name ''Element'' ''JSX'' \<or>
      (\<exists>T\<in>set elementTypes. isReactTypeMatch ?name T alias)"
  proof -
    from that obtain U b where "isReactTypeMatch ?name U b"
      "U \<in> set (''Element'' # ''Ref'' # elementTypes)" by auto
    then show ?thesis using node_excludes_element by blast
  qed
  have p5: "convert ?ref alias = Inr (Some (createMember (Identifier ''element''))) \<longleftrightarrow>
      isReactTypeMatch ?name ''Element'' ''JSX'' \<or>
      (\<exists>T\<in>set elementTypes. isReactTypeMatch ?name T alias)"
  proof (cases "isReactTypeMatch ?name ''Element'' ''JSX'' \<or>
      (\<exists>T\<in>set elementTypes. isReactTypeMatch ?name T alias)")
    case True
    with excl [OF True] show ?thesis by (simp add: convert_TSTypeReference_rules)
  next
    case False
    then show ?thesis
      by (simp add: convert_TSTypeReference_rules createMember_def createCall_def)
  qed
  from p1 p2 p3 p4 p5 show ?thesis by blast
qed

theorem alias_sensitivity_witness:
  "getTypeName (TSQualifiedName (EntityIdentifier ''MyAlias'') ''ReactNode'') =
     ''MyAlias'' @ ''.ReactNode'' \<and>
   ''Other'' \<noteq> ''MyAlias'' \<and>
   ''MyAlias'' @ ''.ReactNode'' \<noteq> ''React.ReactNode'' \<and>
   ''MyAlias'' @ ''.ReactNode'' \<noteq> ''ReactNode'' \<and>
   convert (TSTypeReference (TSQualifiedName (EntityIdentifier ''MyAlias'') ''ReactNode'') [])
     ''MyAlias'' = Inr (Some (MemberExpression (Identifier ''PropTypes'') (Identifier ''node''))) \<and>
   convert (TSTypeReference (TSQualifiedName (EntityIdentifier ''MyAlias'') ''ReactNode'') [])
     ''Other'' = Inr None"
  using alias_sensitivity
    [of "TSQualifiedName (EntityIdentifier ''MyAlias'') ''ReactNode''" "''MyAlias''" "[]"
      "''Other''"]
  by (simp add: createMember_def)

text \<open>
  C6: for every type reference whose resolved name matches \<open>Ref\<close> under the framework
  match rule, \<open>convert\<close> yields exactly the call
  \<open>oneOfType([string, func, object])\<close>, whatever the type arguments of the reference.
\<close>

theorem convert_Ref_fixed_union:
  assumes "isReactTypeMatch (getTypeName typeName) ''Ref'' a"
  shows "convert (TSTypeReference typeName typeArguments) a =
     Inr (Some (createCall (Identifier ''oneOfType'')
       [ArrayExpression
         [createMember (Identifier ''string''),
          createMember (Identifier ''func''),
          createMember (Identifier ''object'')]]))"
proof -
  let ?name = "getTypeName typeName"
  have "\<not> isReactTypeMatch ?name T a" if "T \<in> set nodeTypes" for T
    using assms _ that by (rule node_excludes_element) simp
  moreover have "\<not> isReactTypeMatch ?name T b" if "T \<in> set (''Element'' # elementTypes)"
    for T b
  proof
    assume "isReactTypeMatch ?name T b"
    then have "T = ''Ref''"
      using assms
    proof (rule match_unique)
      show "CHR ''.'' \<notin> set T" using that by (intro no_dot_frameworkTypes) auto
    qed simp
    with that show False by (auto simp: elementTypes_def)
  qed
  ultimately show ?thesis
    using assms by (simp add: convert_TSTypeReference_rules)
qed

theorem convert_Ref_fixed_union_witness:
  "isReactTypeMatch (getTypeName (TSQualifiedName (EntityIdentifier ''React'') ''Ref'')) ''Ref''
     ''R'' \<and>
   convert (TSTypeReference (TSQualifiedName (EntityIdentifier ''React'') ''Ref'')
      [TSTypeReference (EntityIdentifier ''HTMLDivElement'') []]) ''R'' =
     Inr (Some (CallExpression (MemberExpression (Identifier ''PropTypes'') (Identifier ''oneOfType''))
       [ArrayExpression
         [MemberExpression (Identifier ''PropTypes'') (Identifier ''string''),
          MemberExpression (Identifier ''PropTypes'') (Identifier ''func''),
          MemberExpression (Identifier ''PropTypes'') (Identifier ''object'')]]))"
  using convert_Ref_fixed_union [of "TSQualifiedName (EntityIdentifier ''React'') ''Ref''" "''R''"
      "[TSTypeReference (EntityIdentifier ''HTMLDivElement'') []]"]
  by (simp add: isReactTypeMatch_def createCall_def createMember_def)

text \<open>
  C7: for every type reference whose resolved name matches no node type, no element type
  and not \<open>Ref\<close>: if the name ends with \<open>Handler\<close> the result is the validator
  \<open>PropTypes.func\<close>; else if it ends with \<open>Event\<close> the result is the validator
  \<open>PropTypes.object\<close>; else the result is \<open>null\<close>. The \<open>Handler\<close> test comes
  first, and a name ending in \<open>EventHandler\<close> yields \<open>PropTypes.func\<close>.
\<close>

theorem convert_handler_event_suffix:
  assumes "name = getTypeName typeName"
    and "\<forall>T\<in>set nodeTypes. \<not> isReactTypeMatch name T a"
    and "\<not> isReactTypeMatch name ''Element'' ''JSX''"
    and "\<forall>T\<in>set elementTypes. \<not> isReactTypeMatch name T a"
    and "\<not> isReactTypeMatch name ''Ref'' a"
  shows "convert (TSTypeReference typeName typeArguments) a =
           (if endsWith name ''Handler''
            then Inr (Some (MemberExpression (Identifier ''PropTypes'') (Identifier ''func'')))
            else if endsWith name ''Event''
            then Inr (Some (MemberExpression (Identifier ''PropTypes'') (Identifier ''object'')))
            else Inr None) \<and>
         (endsWith name ''EventHandler'' \<longrightarrow>
            convert (TSTypeReference typeName typeArguments) a =
              Inr (Some (MemberExpression (Identifier ''PropTypes'') (Identifier ''func''))))"
proof -
  have eq: "convert (TSTypeReference typeName typeArguments) a =
           (if endsWith name ''Handler''
            then Inr (Some (MemberExpression (Identifier ''PropTypes'') (Identifier ''func'')))
            else if endsWith name ''Event''
            then Inr (Some (MemberExpression (Identifier ''PropTypes'') (Identifier ''object'')))
            else Inr None)"
    using assms by (simp add: convert_TSTypeReference_rules createMember_def)
  have "endsWith ''EventHandler'' ''Handler''" by (simp add: endsWith_def)
  then have "endsWith name ''EventHandler'' \<Longrightarrow> endsWith name ''Handler''"
    by (rule endsWith_trans)
  with eq show ?thesis by simp
qed

theorem convert_handler_event_suffix_witness:
  "\<not> (\<exists>T\<in>set (''Element'' # ''Ref'' # nodeTypes @ elementTypes).
        isReactTypeMatch ''React.MouseEventHandler'' T ''React'' \<or>
        isReactTypeMatch ''React.MouseEventHandler'' T ''JSX'') \<and>
   endsWith ''React.MouseEventHandler'' ''EventHandler'' \<and>
   endsWith ''React.MouseEventHandler'' ''Handler'' \<and>
   convert (TSTypeReference (TSQualifiedName (EntityIdentifier ''React'') ''MouseEventHandler'') [])
     ''React'' =
     Inr (Some (MemberExpression (Identifier ''PropTypes'') (Identifier ''func''))) \<and>
   \<not> endsWith ''React.MouseEvent'' ''Handler'' \<and>
   endsWith ''React.MouseEvent'' ''Event'' \<and>
   convert (TSTypeReference (TSQualifiedName (EntityIdentifier ''React'') ''MouseEvent'') [])
     ''React'' =
     Inr (Some (MemberExpression (Identifier ''PropTypes'') (Identifier ''object''))) \<and>
   \<not> endsWith ''CustomType'' ''Handler'' \<and>
   \<not> endsWith ''CustomType'' ''Event'' \<and>
   convert (TSTypeReference (EntityIdentifier ''CustomType'') []) ''React'' = Inr None"
  using convert_handler_event_suffix [of "''React.MouseEventHandler''"
      "TSQualifiedName (EntityIdentifier ''React'') ''MouseEventHandler''" "''React''" "[]"]
    convert_handler_event_suffix [of "''React.MouseEvent''"
      "TSQualifiedName (EntityIdentifier ''React'') ''MouseEvent''" "''React''" "[]"]
    convert_handler_event_suffix [of "''CustomType''" "EntityIdentifier ''CustomType''"
      "''React''" "[]"]
  by (simp add: nodeTypes_def elementTypes_def isReactTypeMatch_def endsWith_def)

section \<open>The entry point\<close>

text \<open>
  C8 says that \<open>convertToPropTypes\<close> returns, for every mapping, list of names and
  alias, the concatenation of the converted property lists of the listed names, skipping
  the names absent from the mapping, each member with a converting annotation giving one
  assignment under its own key. The code raises a \<open>TypeError\<close> instead on two kinds of
  input. A listed name that is absent from the mapping but is a property of
  \<open>Object.prototype\<close>, such as \<open>toString\<close>, passes the test
  \<open>if (types[typeName])\<close> and fails at \<open>properties.forEach\<close>. A member whose key
  is a computed expression other than an identifier or a literal, such as
  \<open>[Symbol.iterator]: string\<close>, fails in \<open>t.objectProperty\<close>, which is called without
  the \<open>computed\<close> flag.
\<close>

theorem convertToPropTypes_throws:
  "convertToPropTypes Map.empty [''toString''] ''React'' =
     Inl (NotAFunctionTypeError ''toString'') \<and>
   convert TSStringKeyword ''React'' =
     Inr (Some (MemberExpression (Identifier ''PropTypes'') (Identifier ''string''))) \<and>
   convertToPropTypes
     [''Props'' \<mapsto>
        [TSPropertySignature (MemberExpression (Identifier ''Symbol'') (Identifier ''iterator''))
           (Some (TSTypeAnnotation TSStringKeyword)) None]]
     [''Props''] ''React'' =
     Inl (InvalidKeyTypeError (MemberExpression (Identifier ''Symbol'') (Identifier ''iterator'')))"
  by (simp add: objectPrototypeNames_def objectProperty_def createMember_def)

text \<open>
  On the other inputs the code does what C8 says: \<open>convertToPropTypes_concat\<close> above
  shows that when every listed name is in the mapping or is not a property of
  \<open>Object.prototype\<close>, and every member of a listed list converts without an exception,
  the result is the concatenation, in the order of the listed names, of the assignments
  of the members, one for each member whose annotation converts to a validator, under its
  own key and in input order. An example with an absent name, a member without
  annotation and a member whose annotation converts to \<open>null\<close>:
\<close>

lemma convertToPropTypes_flattens_example:
  "convertToPropTypes
     [''Props'' \<mapsto>
        [TSPropertySignature (Identifier ''label'') (Some (TSTypeAnnotation TSStringKeyword))
           (Some False),
         TSPropertySignature (Identifier ''untyped'') None None,
         TSPropertySignature (Identifier ''custom'')
           (Some (TSTypeAnnotation (TSOtherType ''TSAnyKeyword''))) None,
         TSPropertySignature (Identifier ''onClick'') (Some (TSTypeAnnotation TSFunctionType))
           (Some True),
         TSPropertySignature (Identifier ''items'')
           (Some (TSTypeAnnotation (TSArrayType TSStringKeyword))) (Some False)]]
     [''Missing'', ''Props''] ''React'' =
   Inr [ObjectProperty (Identifier ''label'')
      (MemberExpression (MemberExpression (Identifier ''PropTypes'') (Identifier ''string''))
         (Identifier ''isRequired'')),
    ObjectProperty (Identifier ''onClick'')
      (MemberExpression (Identifier ''PropTypes'') (Identifier ''func'')),
    ObjectProperty (Identifier ''items'')
      (MemberExpression
         (CallExpression (MemberExpression (Identifier ''PropTypes'') (Identifier ''arrayOf''))
            [MemberExpression (Identifier ''PropTypes'') (Identifier ''string'')])
         (Identifier ''isRequired''))]"
  by (simp add: convert_TSArrayType createCall_def createMember_def wrapIsRequired_def
      objectProperty_def objectPrototypeNames_def)

section \<open>Parentheses\<close>

text \<open>
  C9: one call of \<open>convert\<close> strips exactly one level of parentheses before it
  classifies. Applied to a parenthesized \<open>T\<close> it classifies \<open>T\<close>: the result is that
  of \<open>T\<close> when \<open>T\<close> is not itself parenthesized, and \<open>null\<close> when it is, since a
  parenthesized node matches no classification rule. So a doubly parenthesized type
  converts to \<open>null\<close>.
\<close>

theorem convert_strips_one_paren:
  "convert (TSParenthesizedType T) a = (if isTSParenthesizedType T then Inr None else convert T a) \<and>
   convert (TSParenthesizedType (TSParenthesizedType T)) a = Inr None \<and>
   removeParens (TSParenthesizedType (TSParenthesizedType T)) = TSParenthesizedType T"
  by (simp add: convert_TSParenthesizedType)

theorem convert_strips_one_paren_witness:
  "convert (TSParenthesizedType TSStringKeyword) ''React'' =
     Inr (Some (MemberExpression (Identifier ''PropTypes'') (Identifier ''string''))) \<and>
   convert (TSParenthesizedType (TSParenthesizedType TSStringKeyword)) ''React'' = Inr None"
  using convert_strips_one_paren [of TSStringKeyword "''React''"]
  by (simp add: createMember_def)

section \<open>The element rule and the alias \<open>JSX\<close>\<close>

text \<open>
  C10: for every configured alias, a type reference whose resolved name is exactly
  \<open>Element\<close> or exactly \<open>React.Element\<close> converts to the \<open>element\<close> validator:
  the element rule tests \<open>Element\<close> with the fixed alias \<open>JSX\<close> under the same
  match rule, which also accepts the bare and the \<open>React\<close>-qualified name.
\<close>

theorem convert_Element_any_alias:
  assumes "getTypeName typeName = ''Element'' \<or> getTypeName typeName = ''React.Element''"
  shows "convert (TSTypeReference typeName typeArguments) a =
           Inr (Some (createMember (Identifier ''element'')))"
proof -
  let ?name = "getTypeName typeName"
  have m: "isReactTypeMatch ?name ''Element'' ''JSX''"
    using assms by (auto simp: isReactTypeMatch_def)
  then have "\<not> isReactTypeMatch ?name T a" if "T \<in> set nodeTypes" for T
    using _ that by (rule node_excludes_element) simp
  with m show ?thesis by (simp add: convert_TSTypeReference_rules)
qed

theorem convert_Element_any_alias_witness:
  "getTypeName (EntityIdentifier ''Element'') = ''Element'' \<and>
   getTypeName (TSQualifiedName (EntityIdentifier ''React'') ''Element'') = ''React.Element'' \<and>
   convert (TSTypeReference (EntityIdentifier ''Element'') []) ''Preact'' =
     Inr (Some (MemberExpression (Identifier ''PropTypes'') (Identifier ''element''))) \<and>
   convert (TSTypeReference (TSQualifiedName (EntityIdentifier ''React'') ''Element'') [])
     ''Preact'' =
     Inr (Some (MemberExpression (Identifier ''PropTypes'') (Identifier ''element'')))"
  using convert_Element_any_alias [of "EntityIdentifier ''Element''" "[]" "''Preact''"]
    convert_Element_any_alias [of "TSQualifiedName (EntityIdentifier ''React'') ''Element''" "[]"
      "''Preact''"]
  by (simp add: createMember_def)

end
